theory Spec2Isabelle
  imports Main "HOL-Library.Sublist"
begin

section \<open>Data model of the scanner output\<close>

text \<open>
  The planner reads the JSON that \<^verbatim>\<open>snyk test --json\<close> prints. A JSON object is a Python
  dict; the code reads it with \<^verbatim>\<open>.get\<close>, which yields \<^verbatim>\<open>None\<close> for a key that is not
  there. The scalar values that reach an f-string are modelled by \<open>pyval\<close>, and
  \<open>py_str\<close> is Python's \<^verbatim>\<open>str()\<close> on them. Strings are byte lists (UTF-8).
\<close>

datatype pyval = PNone | PBool bool | PStr string

fun py_str :: "pyval \<Rightarrow> string" where
  "py_str PNone = ''None''"
| "py_str (PBool True) = ''True''"
| "py_str (PBool False) = ''False''"
| "py_str (PStr s) = s"

text \<open>
  One vulnerability record. A text field holds what \<^verbatim>\<open>vuln.get(key)\<close> returns
  (\<open>PNone\<close> when the key is absent). The upgrade path is \<open>None\<close> when the key
  \<^verbatim>\<open>upgradePath\<close> is absent and \<open>Some xs\<close> when it is a JSON array; the scanner writes
  \<^verbatim>\<open>false\<close> or a version string in each position.
\<close>

record vuln =
  packageName :: pyval
  version :: pyval
  title :: pyval
  severity :: pyval
  upgradePath :: "pyval list option"

text \<open>
  One project of the scan output: the key \<^verbatim>\<open>vulnerabilities\<close> is optional, and
  \<open>other_keys\<close> lists the remaining keys of the object (a dict is falsy exactly when it has
  no key at all).
\<close>

record project =
  vulnerabilities :: "vuln list option"
  other_keys :: "string list"

datatype snyk_data = Project project | Monorepo "project list"

datatype py_error = IndexError

section \<open>Result classifier\<close>

text \<open>Python truthiness of the scan result: an empty dict and an empty list are falsy.\<close>

fun truthy :: "snyk_data \<Rightarrow> bool" where
  "truthy (Project p) = (\<not> (vulnerabilities p = None \<and> other_keys p = []))"
| "truthy (Monorepo items) = (items \<noteq> [])"

text \<open>\<^verbatim>\<open>item.get('vulnerabilities', [])\<close>\<close>

definition get_vulnerabilities :: "project \<Rightarrow> vuln list" where
  "get_vulnerabilities item = (case vulnerabilities item of None \<Rightarrow> [] | Some vs \<Rightarrow> vs)"

text \<open>
  The local \<^verbatim>\<open>vulnerabilities\<close> of \<^verbatim>\<open>process_snyk_results\<close>: the nested comprehension
  for a monorepo output, the project's own list otherwise.
\<close>

fun vulnerabilities_list :: "snyk_data \<Rightarrow> vuln list" where
  "vulnerabilities_list (Monorepo items) =
     [v. item \<leftarrow> items, v \<leftarrow> get_vulnerabilities item]"
| "vulnerabilities_list (Project p) = get_vulnerabilities p"

text \<open>
  The test of the loop body:
  \<^verbatim>\<open>vuln.get('upgradePath') and len(vuln['upgradePath']) > 1\<close>.
\<close>

definition has_upgrade :: "vuln \<Rightarrow> bool" where
  "has_upgrade v =
     (case upgradePath v of None \<Rightarrow> False | Some p \<Rightarrow> p \<noteq> [] \<and> 1 < length p)"

text \<open>The \<^verbatim>\<open>for\<close> loop, appending to one of the two accumulators.\<close>

fun classify_loop :: "vuln list \<Rightarrow> vuln list \<times> vuln list \<Rightarrow> vuln list \<times> vuln list" where
  "classify_loop [] (fixable_vulns, unfixable_vulns) = (fixable_vulns, unfixable_vulns)"
| "classify_loop (v # vs) (fixable_vulns, unfixable_vulns) =
     (if has_upgrade v then classify_loop vs (fixable_vulns @ [v], unfixable_vulns)
      else classify_loop vs (fixable_vulns, unfixable_vulns @ [v]))"

fun process_snyk_results :: "snyk_data option \<Rightarrow> vuln list \<times> vuln list" where
  "process_snyk_results None = ([], [])"
| "process_snyk_results (Some d) =
     (if \<not> truthy d then ([], []) else classify_loop (vulnerabilities_list d) ([], []))"

section \<open>Prompt builder\<close>

text \<open>\<^verbatim>\<open>sep.join(parts)\<close>\<close>

fun join :: "string \<Rightarrow> string list \<Rightarrow> string" where
  "join sep [] = []"
| "join sep [x] = x"
| "join sep (x # y # ys) = x @ sep @ join sep (y # ys)"

text \<open>\<^verbatim>\<open>xs[i]\<close> for a list and an index that is not negative: out of range it raises.\<close>

definition subscript :: "'a list \<Rightarrow> nat \<Rightarrow> py_error + 'a" where
  "subscript xs i = (if i < length xs then Inr (xs ! i) else Inl IndexError)"

text \<open>\<^verbatim>\<open>vuln.get('upgradePath', ['N/A'])[1]\<close>\<close>

definition suggested_upgrade :: "vuln \<Rightarrow> py_error + pyval" where
  "suggested_upgrade v =
     subscript (case upgradePath v of None \<Rightarrow> [PStr ''N/A''] | Some p \<Rightarrow> p) 1"

text \<open>The block of one record in \<^verbatim>\<open>create_upgrade_prompt\<close> (four adjacent f-strings).\<close>

definition upgrade_detail :: "vuln \<Rightarrow> py_error + string" where
  "upgrade_detail v =
     (case suggested_upgrade v of
        Inl e \<Rightarrow> Inl e
      | Inr u \<Rightarrow> Inr (''- Package: '' @ py_str (packageName v) @
                      ''\<newline>  Current Version: '' @ py_str (version v) @
                      ''\<newline>  Suggested Upgrade: '' @ py_str u @
                      ''\<newline>  Severity: '' @ py_str (severity v)))"

text \<open>The comprehension over the records: the first block that raises ends it.\<close>

fun upgrade_details :: "vuln list \<Rightarrow> py_error + string list" where
  "upgrade_details [] = Inr []"
| "upgrade_details (v # vs) =
     (case upgrade_detail v of
        Inl e \<Rightarrow> Inl e
      | Inr d \<Rightarrow> (case upgrade_details vs of Inl e \<Rightarrow> Inl e | Inr ds \<Rightarrow> Inr (d # ds)))"

definition upgrade_template :: string where
  "upgrade_template =
     ''\<newline>    You are an expert software engineer. Based on the following list of vulnerabilities, create a prioritized, step-by-step upgrade plan in Markdown format. Group patch and minor updates first to minimize breaking changes.\<newline>\<newline>    Vulnerabilities with a direct fix:\<newline>    ''"

definition create_upgrade_prompt :: "vuln list \<Rightarrow> py_error + string" where
  "create_upgrade_prompt vs =
     (case upgrade_details vs of
        Inl e \<Rightarrow> Inl e
      | Inr prompt_details \<Rightarrow>
          Inr (upgrade_template @ join ''\<newline>'' prompt_details @ ''\<newline>    ''))"

text \<open>The block of one record in \<^verbatim>\<open>create_replacement_prompt\<close>.\<close>

definition replacement_detail :: "vuln \<Rightarrow> string" where
  "replacement_detail v =
     ''- Package: '' @ [CHR 0x27] @ py_str (packageName v) @ [CHR 0x27] @
     ''\<newline>  Vulnerability: '' @ py_str (title v) @ '' ('' @ py_str (severity v) @
     '' severity)''"

definition replacement_template :: string where
  "replacement_template =
     ''\<newline>    You are an expert software engineer. The following open-source packages have vulnerabilities with no direct upgrade path available. \<newline>    For each package, please infer its primary purpose from its name and suggest 1-2 popular, well-maintained alternative packages that fulfill the same purpose. \<newline>    Provide a brief justification for each suggestion. Format the output clearly in Markdown.\<newline>\<newline>    Packages needing replacement:\<newline>    ''"

definition create_replacement_prompt :: "vuln list \<Rightarrow> string" where
  "create_replacement_prompt vs =
     replacement_template @ join ''\<newline>'' (map replacement_detail vs) @ ''\<newline>    ''"

section \<open>Console and remote service\<close>

text \<open>
  The effects of the program are kept in a record that every effectful function takes and
  returns: \<open>out\<close> is what was written to the console, one entry for each \<^verbatim>\<open>print\<close>;
  \<open>sent\<close> is the prompts sent to the text-generation service, one entry for each
  \<^verbatim>\<open>generate_content\<close> call; \<open>slept\<close> is the seconds spent in \<^verbatim>\<open>time.sleep\<close>.
\<close>

record world =
  out :: "string list"
  sent :: "string list"
  slept :: nat

definition print :: "string \<Rightarrow> world \<Rightarrow> world" where
  "print s w = w\<lparr>out := out w @ [s]\<rparr>"

definition sleep :: "nat \<Rightarrow> world \<Rightarrow> world" where
  "sleep n w = w\<lparr>slept := slept w + n\<rparr>"

text \<open>
  A remote call (building the model \<^verbatim>\<open>gemini-1.5-flash-latest\<close>, then
  \<^verbatim>\<open>model.generate_content(prompt)\<close> and \<^verbatim>\<open>response.text\<close>) either returns the text or
  raises. The failures are the exceptions of class \<^verbatim>\<open>Exception\<close>
  that the client library raises, each with the text \<^verbatim>\<open>str(e)\<close>; the rate limit is
  \<^verbatim>\<open>ResourceExhausted\<close>. The service is a function of the number of calls made before and
  of the prompt.
\<close>

datatype failure = ResourceExhausted string | OtherException string

fun message :: "failure \<Rightarrow> string" where
  "message (ResourceExhausted m) = m"
| "message (OtherException m) = m"

datatype outcome = Returned string | Raised failure

type_synonym remote = "nat \<Rightarrow> string \<Rightarrow> outcome"

definition generate :: "remote \<Rightarrow> string \<Rightarrow> world \<Rightarrow> outcome \<times> world" where
  "generate gc prompt w = (gc (length (sent w)) prompt, w\<lparr>sent := sent w @ [prompt]\<rparr>)"

definition brain :: string where "brain = [CHR 0xF0, CHR 0x9F, CHR 0xA7, CHR 0xA0]"
definition yellow_circle :: string where "yellow_circle = [CHR 0xF0, CHR 0x9F, CHR 0x9F, CHR 0xA1]"
definition cross_mark :: string where "cross_mark = [CHR 0xE2, CHR 0x9D, CHR 0x8C]"
definition check_mark :: string where "check_mark = [CHR 0xE2, CHR 0x9C, CHR 0x85]"
definition microscope :: string where "microscope = [CHR 0xF0, CHR 0x9F, CHR 0x94, CHR 0xAC]"
definition siren :: string where "siren = [CHR 0xF0, CHR 0x9F, CHR 0x9A, CHR 0xA8]"
definition rocket :: string where "rocket = [CHR 0xF0, CHR 0x9F, CHR 0x9A, CHR 0x80]"
definition thinking_face :: string where "thinking_face = [CHR 0xF0, CHR 0x9F, CHR 0xA4, CHR 0x94]"

definition upgrade_title :: string where
  "upgrade_title = rocket @ '' Your AI-Generated Dependency Upgrade Plan '' @ rocket"

definition replacement_title :: string where
  "replacement_title = thinking_face @ '' AI Suggestions for Package Replacements '' @ thinking_face"

definition no_fixable_notice :: string where
  "no_fixable_notice =
     ''\<newline>'' @ check_mark @ '' No vulnerabilities with direct upgrade paths were found.''"

definition all_fixable_notice :: string where
  "all_fixable_notice =
     ''\<newline>'' @ check_mark @ '' All found vulnerabilities seem to have a direct upgrade path.''"

definition path_question :: string where
  "path_question = ''Please enter the full path to the project you want to scan: ''"

definition scan_message :: string where
  "scan_message = microscope @ '' Running Snyk scan... (This may take a moment)''"

definition asking_message :: string where
  "asking_message = brain @ '' Asking Gemini for insights...''"

section \<open>AI query client\<close>

text \<open>
  The prompt is \<open>None\<close> for Python's \<^verbatim>\<open>None\<close>; \<^verbatim>\<open>not prompt\<close> holds for \<^verbatim>\<open>None\<close> and for
  the empty string.
\<close>

definition retry :: "remote \<Rightarrow> string \<Rightarrow> world \<Rightarrow> string \<times> world" where
  "retry gc prompt w =
     (let w1 = print (yellow_circle @ '' Rate limit hit. Waiting for 30 seconds before retrying...'') w;
          w2 = sleep 30 w1;
          w3 = print '' yeniden deneme...'' w2;
          (r, w4) = generate gc prompt w3
      in case r of
           Returned text \<Rightarrow> (text, w4)
         | Raised e \<Rightarrow> (cross_mark @ '' Error on retry: '' @ message e, w4))"

fun get_ai_response :: "remote \<Rightarrow> string option \<Rightarrow> world \<Rightarrow> string \<times> world" where
  "get_ai_response gc None w = (''Prompt could not be created.'', w)"
| "get_ai_response gc (Some prompt) w =
     (if prompt = [] then (''Prompt could not be created.'', w)
      else
        let w1 = print asking_message w;
            (r, w2) = generate gc prompt w1
        in case r of
             Returned text \<Rightarrow> (text, w2)
           | Raised (ResourceExhausted m) \<Rightarrow> retry gc prompt w2
           | Raised (OtherException m) \<Rightarrow>
               (cross_mark @ '' An unexpected error occurred: '' @ m, w2))"

section \<open>Scan invoker and orchestrator\<close>

text \<open>
  What the process finds around it: the credential after \<^verbatim>\<open>load_dotenv\<close>, the line the
  operator types, the file system's \<^verbatim>\<open>os.path.isdir\<close>, the run of the scanner in a
  directory (\<^verbatim>\<open>subprocess.run\<close> either raises \<^verbatim>\<open>FileNotFoundError\<close> or completes with a
  return code, standard output and standard error), the JSON parser (which raises
  \<^verbatim>\<open>JSONDecodeError\<close> or returns a value, \<open>None\<close> for JSON \<^verbatim>\<open>null\<close>), and the remote
  text-generation service.
\<close>

datatype completed = FileNotFoundError | CompletedProcess int string string

datatype parsed = JSONDecodeError | Value "snyk_data option"

record env =
  GOOGLE_API_KEY :: "string option"
  typed_path :: string
  isdir :: "string \<Rightarrow> bool"
  subprocess_run :: "string \<Rightarrow> completed"
  json_loads :: "string \<Rightarrow> parsed"
  generate_content :: remote

definition run_snyk_scan :: "env \<Rightarrow> string \<Rightarrow> world \<Rightarrow> snyk_data option \<times> world" where
  "run_snyk_scan e project_path w =
     (let w1 = print scan_message w
      in case subprocess_run e project_path of
           FileNotFoundError \<Rightarrow>
             (None, print (cross_mark @ '' Error: '' @ [CHR 0x27] @ ''snyk'' @ [CHR 0x27] @
                           '' command not found. Is the Snyk CLI installed and in your PATH?'') w1)
         | CompletedProcess returncode stdout stderr \<Rightarrow>
             if returncode \<noteq> 0 \<and> stdout = [] then
               (None, print (cross_mark @ '' Snyk command failed with an error:\<newline>'' @ stderr) w1)
             else
               (case json_loads e stdout of
                  JSONDecodeError \<Rightarrow>
                    (None, print (cross_mark @ '' Error: Failed to decode Snyk'' @ [CHR 0x27] @
                                  ''s JSON output. Is the project configured correctly?'') w1)
                | Value d \<Rightarrow> (d, w1)))"

text \<open>\<^verbatim>\<open>not snyk_results\<close>\<close>

fun no_results :: "snyk_data option \<Rightarrow> bool" where
  "no_results None = True"
| "no_results (Some d) = (\<not> truthy d)"

definition banner :: string where
  "banner = replicate 50 (CHR ''='')"

text \<open>The two halves of the end of \<^verbatim>\<open>main\<close>: \<^verbatim>\<open>if fixable: ... else: ...\<close> and
  \<^verbatim>\<open>if unfixable: ... else: ...\<close>.\<close>

definition upgrade_section :: "env \<Rightarrow> vuln list \<Rightarrow> world \<Rightarrow> py_error + world" where
  "upgrade_section e fixable w =
     (if fixable \<noteq> [] then
        (case create_upgrade_prompt fixable of
           Inl err \<Rightarrow> Inl err
         | Inr upgrade_prompt \<Rightarrow>
             let (upgrade_plan, w1) = get_ai_response (generate_content e) (Some upgrade_prompt) w;
                 w2 = print (''\<newline>'' @ banner) w1;
                 w3 = print upgrade_title w2;
                 w4 = print (banner @ ''\<newline>'') w3
             in Inr (print upgrade_plan w4))
      else
        Inr (print no_fixable_notice w))"

definition replacement_section :: "env \<Rightarrow> vuln list \<Rightarrow> world \<Rightarrow> world" where
  "replacement_section e unfixable w =
     (if unfixable \<noteq> [] then
        let replacement_prompt = create_replacement_prompt unfixable;
            (replacement_suggestions, w1) =
               get_ai_response (generate_content e) (Some replacement_prompt) w;
            w2 = print (''\<newline>'' @ banner) w1;
            w3 = print replacement_title w2;
            w4 = print (banner @ ''\<newline>'') w3
        in print replacement_suggestions w4
      else
        print all_fixable_notice w)"

text \<open>
  \<^verbatim>\<open>main\<close>. The result is \<open>Inl\<close> when an exception leaves \<^verbatim>\<open>main\<close>, and the final
  console and service state otherwise. The question that \<^verbatim>\<open>input\<close> writes is recorded
  in \<open>out\<close> as well.
\<close>

definition main :: "env \<Rightarrow> world \<Rightarrow> py_error + world" where
  "main e w =
     (if GOOGLE_API_KEY e = None \<or> GOOGLE_API_KEY e = Some [] then
        Inr (print (siren @ '' Please set the GOOGLE_API_KEY in a .env file.'') w)
      else
        let w1 = print path_question w;
            project_path_to_scan = typed_path e
        in if project_path_to_scan = [] \<or> \<not> isdir e project_path_to_scan then
             Inr (print (cross_mark @
                    '' Invalid path entered. Please provide a valid directory. Exiting.'') w1)
           else
             let (snyk_results, w2) = run_snyk_scan e project_path_to_scan w1
             in if no_results snyk_results then Inr w2
                else
                  let (fixable, unfixable) = process_snyk_results snyk_results
                  in case upgrade_section e fixable w2 of
                       Inl err \<Rightarrow> Inl err
                     | Inr w3 \<Rightarrow> Inr (replacement_section e unfixable w3))"

section \<open>Sample inputs\<close>

text \<open>
  Concrete inputs on which the theorems below are evaluated: a fresh console, a service
  that answers from a script (and is unavailable once the script is used up), a fixable and
  an unfixable record, and an environment in which the credential and the path are in order
  and the scanner's output parses to a given value.
\<close>

definition start :: world where
  "start = \<lparr>out = [], sent = [], slept = 0\<rparr>"

definition scripted :: "outcome list \<Rightarrow> remote" where
  "scripted script n prompt =
     (if n < length script then script ! n else Raised (OtherException ''unavailable''))"

definition lodash :: vuln where
  "lodash = \<lparr>packageName = PStr ''lodash'', version = PStr ''4.0.0'',
              title = PStr ''Prototype Pollution'', severity = PStr ''high'',
              upgradePath = Some [PBool False, PStr ''lodash@4.17.21'']\<rparr>"

definition old_lib :: vuln where
  "old_lib = \<lparr>packageName = PStr ''old-lib'', version = PNone,
               title = PStr ''Prototype Pollution'', severity = PStr ''critical'',
               upgradePath = Some []\<rparr>"

definition sample_env :: "snyk_data option \<Rightarrow> remote \<Rightarrow> env" where
  "sample_env d gc =
     \<lparr>GOOGLE_API_KEY = Some ''secret'', typed_path = ''/srv/app'',
      isdir = (\<lambda>p. p = ''/srv/app''),
      subprocess_run = (\<lambda>cwd. CompletedProcess 1 ''json'' []),
      json_loads = (\<lambda>text. Value d), generate_content = gc\<rparr>"

definition mixed_scan :: snyk_data where
  "mixed_scan = Project \<lparr>vulnerabilities = Some [lodash, old_lib], other_keys = [''ok'']\<rparr>"

definition failing_env :: env where
  "failing_env =
     sample_env (Some mixed_scan)
       (scripted [Raised (OtherException ''timeout''), Returned ''alternatives''])"

section \<open>Properties of the classifier\<close>

lemma classify_loop_filter:
  "classify_loop vs (fs, us) = (fs @ filter has_upgrade vs, us @ filter (\<lambda>v. \<not> has_upgrade v) vs)"
  by (induction vs arbitrary: fs us) simp_all

lemma falsy_no_vulnerabilities: "\<not> truthy d \<Longrightarrow> vulnerabilities_list d = []"
  by (cases d) (simp_all add: get_vulnerabilities_def)

lemma process_snyk_results_filter:
  "process_snyk_results (Some d) =
     (filter has_upgrade (vulnerabilities_list d),
      filter (\<lambda>v. \<not> has_upgrade v) (vulnerabilities_list d))"
  by (cases "truthy d") (simp_all add: classify_loop_filter falsy_no_vulnerabilities)

lemma has_upgrade_iff:
  "has_upgrade v = (case upgradePath v of None \<Rightarrow> False | Some p \<Rightarrow> 1 < length p)"
  by (auto simp: has_upgrade_def split: option.splits)

text \<open>
  C1. Classification is a stable partition of the records of the scan result. The records
  of a single-project result are the list under its key \<^verbatim>\<open>vulnerabilities\<close> (none when the
  key is absent); the records of a monorepo result are the lists of its subprojects, one
  after the other. The fixable output is exactly the records whose upgrade path is present
  with more than one element, in input order; the unfixable output is exactly all the
  others, in input order; so every record is in exactly one of the two, and the two lengths
  add up to the number of records. A scan result that is absent gives two empty outputs.
\<close>

theorem process_snyk_results_partition:
  "process_snyk_results None = ([], []) \<and>
   process_snyk_results (Some (Project p)) =
     (filter (\<lambda>v. case upgradePath v of None \<Rightarrow> False | Some path \<Rightarrow> 1 < length path)
        (case vulnerabilities p of None \<Rightarrow> [] | Some vs \<Rightarrow> vs),
      filter (\<lambda>v. \<not> (case upgradePath v of None \<Rightarrow> False | Some path \<Rightarrow> 1 < length path))
        (case vulnerabilities p of None \<Rightarrow> [] | Some vs \<Rightarrow> vs)) \<and>
   process_snyk_results (Some (Monorepo items)) =
     (filter (\<lambda>v. case upgradePath v of None \<Rightarrow> False | Some path \<Rightarrow> 1 < length path)
        (concat (map (\<lambda>item. case vulnerabilities item of None \<Rightarrow> [] | Some vs \<Rightarrow> vs) items)),
      filter (\<lambda>v. \<not> (case upgradePath v of None \<Rightarrow> False | Some path \<Rightarrow> 1 < length path))
        (concat (map (\<lambda>item. case vulnerabilities item of None \<Rightarrow> [] | Some vs \<Rightarrow> vs) items))) \<and>
   length (fst (process_snyk_results (Some (Project p)))) +
     length (snd (process_snyk_results (Some (Project p)))) =
     length (case vulnerabilities p of None \<Rightarrow> [] | Some vs \<Rightarrow> vs) \<and>
   length (fst (process_snyk_results (Some (Monorepo items)))) +
     length (snd (process_snyk_results (Some (Monorepo items)))) =
     length (concat (map (\<lambda>item. case vulnerabilities item of None \<Rightarrow> [] | Some vs \<Rightarrow> vs) items))"
proof -
  have eq: "has_upgrade = (\<lambda>v. case upgradePath v of None \<Rightarrow> False | Some p \<Rightarrow> 1 < length p)"
    by (rule ext) (rule has_upgrade_iff)
  have gv: "get_vulnerabilities = (\<lambda>item. case vulnerabilities item of None \<Rightarrow> [] | Some vs \<Rightarrow> vs)"
    by (rule ext) (simp add: get_vulnerabilities_def)
  have len: "length (filter P xs) + length (filter (\<lambda>v. \<not> P v) xs) = length xs"
    for xs :: "vuln list" and P by (rule sum_length_filter_compl)
  have single: "vulnerabilities_list (Project p) =
      (case vulnerabilities p of None \<Rightarrow> [] | Some vs \<Rightarrow> vs)"
    by (simp add: gv)
  have mono: "vulnerabilities_list (Monorepo items) =
      concat (map (\<lambda>item. case vulnerabilities item of None \<Rightarrow> [] | Some vs \<Rightarrow> vs) items)"
    by (simp add: gv)
  have a: "process_snyk_results None = ([], [])" by simp
  have b: "process_snyk_results (Some (Project p)) =
     (filter (\<lambda>v. case upgradePath v of None \<Rightarrow> False | Some path \<Rightarrow> 1 < length path)
        (case vulnerabilities p of None \<Rightarrow> [] | Some vs \<Rightarrow> vs),
      filter (\<lambda>v. \<not> (case upgradePath v of None \<Rightarrow> False | Some path \<Rightarrow> 1 < length path))
        (case vulnerabilities p of None \<Rightarrow> [] | Some vs \<Rightarrow> vs))"
    unfolding process_snyk_results_filter single eq ..
  have c: "process_snyk_results (Some (Monorepo items)) =
     (filter (\<lambda>v. case upgradePath v of None \<Rightarrow> False | Some path \<Rightarrow> 1 < length path)
        (concat (map (\<lambda>item. case vulnerabilities item of None \<Rightarrow> [] | Some vs \<Rightarrow> vs) items)),
      filter (\<lambda>v. \<not> (case upgradePath v of None \<Rightarrow> False | Some path \<Rightarrow> 1 < length path))
        (concat (map (\<lambda>item. case vulnerabilities item of None \<Rightarrow> [] | Some vs \<Rightarrow> vs) items)))"
    unfolding process_snyk_results_filter mono eq ..
  show ?thesis
    unfolding b c using a by (simp only: fst_conv snd_conv len simp_thms)
qed

text \<open>
  C4. A monorepo result is flattened in subproject order, then in list order: the
  subprojects \<open>[v1, v2]\<close> and \<open>[v3]\<close> give \<open>[v1, v2, v3]\<close>, which is what the
  classifier then splits; in general the flattened list of a monorepo is the first
  subproject's list followed by the flattened rest, and flattening distributes over
  appending subprojects.
\<close>

theorem monorepo_flattening:
  "vulnerabilities_list
     (Monorepo [\<lparr>vulnerabilities = Some [v1, v2], other_keys = ka\<rparr>,
                \<lparr>vulnerabilities = Some [v3], other_keys = kb\<rparr>]) = [v1, v2, v3] \<and>
   process_snyk_results
     (Some (Monorepo [\<lparr>vulnerabilities = Some [v1, v2], other_keys = ka\<rparr>,
                      \<lparr>vulnerabilities = Some [v3], other_keys = kb\<rparr>])) =
     (filter has_upgrade [v1, v2, v3], filter (\<lambda>v. \<not> has_upgrade v) [v1, v2, v3]) \<and>
   vulnerabilities_list (Monorepo []) = [] \<and>
   vulnerabilities_list (Monorepo (item # items)) =
     get_vulnerabilities item @ vulnerabilities_list (Monorepo items) \<and>
   vulnerabilities_list (Monorepo (items @ items')) =
     vulnerabilities_list (Monorepo items) @ vulnerabilities_list (Monorepo items')"
  by (simp add: process_snyk_results_filter get_vulnerabilities_def
           del: process_snyk_results.simps(2))

section \<open>Properties of the prompt builder\<close>

lemma suggested_upgrade_short:
  "\<not> has_upgrade v \<Longrightarrow> suggested_upgrade v = Inl IndexError"
  by (auto simp: has_upgrade_def suggested_upgrade_def subscript_def split: option.splits)

lemma suggested_upgrade_long:
  "has_upgrade v \<Longrightarrow> suggested_upgrade v = Inr (the (upgradePath v) ! 1)"
  by (auto simp: has_upgrade_def suggested_upgrade_def subscript_def split: option.splits)

lemma upgrade_details_short:
  "v \<in> set vs \<Longrightarrow> \<not> has_upgrade v \<Longrightarrow> upgrade_details vs = Inl IndexError"
proof (induction vs)
  case Nil
  then show ?case by simp
next
  case (Cons a vs)
  show ?case
  proof (cases "has_upgrade a")
    case True
    with Cons have "v \<in> set vs" by auto
    with Cons have "upgrade_details vs = Inl IndexError" by simp
    with True show ?thesis
      by (simp add: upgrade_detail_def suggested_upgrade_long)
  next
    case False
    then show ?thesis
      by (simp add: upgrade_detail_def suggested_upgrade_short)
  qed
qed

lemma upgrade_details_long:
  "list_all has_upgrade vs \<Longrightarrow> \<exists>ds. upgrade_details vs = Inr ds \<and> length ds = length vs"
  by (induction vs) (auto simp: upgrade_detail_def suggested_upgrade_long)

text \<open>
  C2. The upgrade prompt of a record whose upgrade path has fewer than two elements. The
  default \<^verbatim>\<open>['N/A']\<close> has one element and is read at index 1, so for a record without the
  key, with an empty path and with a path of one element the builder raises
  \<^verbatim>\<open>IndexError\<close>: no prompt is returned and no placeholder is substituted.
\<close>

theorem create_upgrade_prompt_short_path_raises:
  "create_upgrade_prompt
     [\<lparr>packageName = PStr ''lodash'', version = PStr ''4.0.0'', title = PStr ''Prototype Pollution'',
       severity = PStr ''high'', upgradePath = None\<rparr>] = Inl IndexError \<and>
   create_upgrade_prompt
     [\<lparr>packageName = PStr ''lodash'', version = PStr ''4.0.0'', title = PStr ''Prototype Pollution'',
       severity = PStr ''high'', upgradePath = Some []\<rparr>] = Inl IndexError \<and>
   create_upgrade_prompt
     [\<lparr>packageName = PStr ''lodash'', version = PStr ''4.0.0'', title = PStr ''Prototype Pollution'',
       severity = PStr ''high'', upgradePath = Some [PStr ''lodash@4.0.0'']\<rparr>] = Inl IndexError"
  by (simp add: create_upgrade_prompt_def upgrade_detail_def suggested_upgrade_def subscript_def)

lemma create_upgrade_prompt_fixable:
  "list_all has_upgrade vs \<Longrightarrow> \<exists>up. create_upgrade_prompt vs = Inr up \<and> up \<noteq> []"
  using upgrade_details_long [of vs]
  by (auto simp: create_upgrade_prompt_def upgrade_template_def)

lemma create_replacement_prompt_nonempty: "create_replacement_prompt vs \<noteq> []"
  by (simp add: create_replacement_prompt_def replacement_template_def)

text \<open>
  C10. Whether the builders return a non-empty string on every sequence of records. The
  replacement prompt is never empty and the upgrade prompt of records that all have an
  upgrade path of more than one element is never empty (the two lemmas above), but on a
  sequence that holds a record with a shorter path the upgrade prompt builder returns no
  string at all: it raises \<^verbatim>\<open>IndexError\<close>, also when a fixable record comes first.
\<close>

theorem create_upgrade_prompt_returns_no_string:
  "create_upgrade_prompt [old_lib] = Inl IndexError \<and>
   create_upgrade_prompt [lodash, old_lib] = Inl IndexError"
  by (simp add: create_upgrade_prompt_def upgrade_detail_def suggested_upgrade_def subscript_def
        lodash_def old_lib_def)

lemma upgrade_detail_fields:
  "packageName v = packageName w \<Longrightarrow> version v = version w \<Longrightarrow> severity v = severity w \<Longrightarrow>
   upgradePath v = upgradePath w \<Longrightarrow> upgrade_detail v = upgrade_detail w"
  by (simp add: upgrade_detail_def suggested_upgrade_def cong: sum.case_cong)

lemma upgrade_details_fields:
  "map (\<lambda>v. (packageName v, version v, severity v, upgradePath v)) vs =
   map (\<lambda>v. (packageName v, version v, severity v, upgradePath v)) ws \<Longrightarrow>
   upgrade_details vs = upgrade_details ws"
proof (induction vs arbitrary: ws)
  case Nil
  then show ?case by simp
next
  case (Cons v vs)
  then obtain w ws' where ws: "ws = w # ws'" by (cases ws) auto
  with Cons.prems have "upgrade_detail v = upgrade_detail w"
    by (intro upgrade_detail_fields) simp_all
  moreover from Cons ws have "upgrade_details vs = upgrade_details ws'" by simp
  ultimately show ?case by (simp add: ws cong: sum.case_cong)
qed

lemma replacement_detail_fields:
  "map (\<lambda>v. (packageName v, title v, severity v)) vs =
   map (\<lambda>v. (packageName v, title v, severity v)) ws \<Longrightarrow>
   map replacement_detail vs = map replacement_detail ws"
proof (induction vs arbitrary: ws)
  case Nil
  then show ?case by simp
next
  case (Cons v vs)
  then obtain w ws' where ws: "ws = w # ws'" by (cases ws) auto
  with Cons show ?case by (simp add: replacement_detail_def)
qed

text \<open>
  C5. Both prompt builders are functions of the sequence of records alone: they take no
  console or service state and return none. Their result is fixed by the fields they
  read: two sequences that agree, record by record, on package name, version, severity and
  upgrade path give the same upgrade prompt (the same bytes, or the same exception), and
  two sequences that agree on package name, title and severity give the same replacement
  prompt. In particular two calls on equal sequences give byte-identical results.
\<close>

theorem prompt_builders_deterministic:
  "(map (\<lambda>v. (packageName v, version v, severity v, upgradePath v)) vs =
    map (\<lambda>v. (packageName v, version v, severity v, upgradePath v)) ws \<longrightarrow>
      create_upgrade_prompt vs = create_upgrade_prompt ws) \<and>
   (map (\<lambda>v. (packageName v, title v, severity v)) vs =
    map (\<lambda>v. (packageName v, title v, severity v)) ws \<longrightarrow>
      create_replacement_prompt vs = create_replacement_prompt ws)"
proof (intro conjI impI)
  assume "map (\<lambda>v. (packageName v, version v, severity v, upgradePath v)) vs =
    map (\<lambda>v. (packageName v, version v, severity v, upgradePath v)) ws"
  then have "upgrade_details vs = upgrade_details ws"
    by (rule upgrade_details_fields)
  then show "create_upgrade_prompt vs = create_upgrade_prompt ws"
    unfolding create_upgrade_prompt_def by (rule arg_cong)
next
  assume "map (\<lambda>v. (packageName v, title v, severity v)) vs =
    map (\<lambda>v. (packageName v, title v, severity v)) ws"
  then have "map replacement_detail vs = map replacement_detail ws"
    by (rule replacement_detail_fields)
  then show "create_replacement_prompt vs = create_replacement_prompt ws"
    unfolding create_replacement_prompt_def by (rule arg_cong)
qed

theorem prompt_builders_deterministic_witness:
  "[lodash] \<noteq> [lodash\<lparr>title := PStr ''ReDoS''\<rparr>] \<and>
   create_upgrade_prompt [lodash] = create_upgrade_prompt [lodash\<lparr>title := PStr ''ReDoS''\<rparr>] \<and>
   [old_lib] \<noteq> [old_lib\<lparr>version := PStr ''0.1.0'', upgradePath := None\<rparr>] \<and>
   create_replacement_prompt [old_lib] =
     create_replacement_prompt [old_lib\<lparr>version := PStr ''0.1.0'', upgradePath := None\<rparr>] \<and>
   create_upgrade_prompt [lodash, old_lib] = create_upgrade_prompt [lodash, old_lib] \<and>
   create_replacement_prompt [lodash, old_lib] = create_replacement_prompt [lodash, old_lib]"
  using prompt_builders_deterministic [of "[lodash]" "[lodash\<lparr>title := PStr ''ReDoS''\<rparr>]"]
    prompt_builders_deterministic [of "[old_lib]"
      "[old_lib\<lparr>version := PStr ''0.1.0'', upgradePath := None\<rparr>]"]
    prompt_builders_deterministic [of "[lodash, old_lib]" "[lodash, old_lib]"]
  by (simp add: lodash_def old_lib_def)

lemma sublist_mid: "sublist xs (ps @ xs @ ss)"
  by (auto simp: sublist_def)

text \<open>
  C6. The replacement prompt of the single record \<^verbatim>\<open>old-lib\<close> with an empty upgrade path
  contains the package name, the title and the severity. The builder returns a string for
  every input (it has no failing branch) and does not read the upgrade path: replacing the
  upgrade paths of the records by anything leaves the prompt unchanged.
\<close>

theorem create_replacement_prompt_old_lib:
  "sublist ''old-lib''
     (create_replacement_prompt
        [\<lparr>packageName = PStr ''old-lib'', version = ver, title = PStr ''Prototype Pollution'',
          severity = PStr ''critical'', upgradePath = Some []\<rparr>]) \<and>
   sublist ''Prototype Pollution''
     (create_replacement_prompt
        [\<lparr>packageName = PStr ''old-lib'', version = ver, title = PStr ''Prototype Pollution'',
          severity = PStr ''critical'', upgradePath = Some []\<rparr>]) \<and>
   sublist ''critical''
     (create_replacement_prompt
        [\<lparr>packageName = PStr ''old-lib'', version = ver, title = PStr ''Prototype Pollution'',
          severity = PStr ''critical'', upgradePath = Some []\<rparr>]) \<and>
   create_replacement_prompt (map (upgradePath_update f) vs) = create_replacement_prompt vs"
proof -
  let ?v = "\<lparr>packageName = PStr ''old-lib'', version = ver, title = PStr ''Prototype Pollution'',
          severity = PStr ''critical'', upgradePath = Some []\<rparr>"
  have name: "create_replacement_prompt [?v] =
      (replacement_template @ ''- Package: '' @ [CHR 0x27]) @ ''old-lib'' @
      ([CHR 0x27] @ ''\<newline>  Vulnerability: '' @ ''Prototype Pollution'' @ '' ('' @
       ''critical'' @ '' severity)'' @ ''\<newline>    '')"
    by (simp add: create_replacement_prompt_def replacement_detail_def)
  have title: "create_replacement_prompt [?v] =
      (replacement_template @ ''- Package: '' @ [CHR 0x27] @ ''old-lib'' @ [CHR 0x27] @
       ''\<newline>  Vulnerability: '') @ ''Prototype Pollution'' @
      ('' ('' @ ''critical'' @ '' severity)'' @ ''\<newline>    '')"
    by (simp add: create_replacement_prompt_def replacement_detail_def)
  have sev: "create_replacement_prompt [?v] =
      (replacement_template @ ''- Package: '' @ [CHR 0x27] @ ''old-lib'' @ [CHR 0x27] @
       ''\<newline>  Vulnerability: '' @ ''Prototype Pollution'' @ '' ('') @ ''critical'' @
      ('' severity)'' @ ''\<newline>    '')"
    by (simp add: create_replacement_prompt_def replacement_detail_def)
  have d: "replacement_detail (upgradePath_update f v) = replacement_detail v" for v
    by (simp add: replacement_detail_def)
  have s1: "sublist ''old-lib'' (create_replacement_prompt [?v])"
    unfolding name by (rule sublist_mid)
  have s2: "sublist ''Prototype Pollution'' (create_replacement_prompt [?v])"
    unfolding title by (rule sublist_mid)
  have s3: "sublist ''critical'' (create_replacement_prompt [?v])"
    unfolding sev by (rule sublist_mid)
  have s4: "create_replacement_prompt (map (upgradePath_update f) vs) =
      create_replacement_prompt vs"
    by (simp add: create_replacement_prompt_def d comp_def)
  from s1 s2 s3 s4 show ?thesis by blast
qed

section \<open>Properties of the AI query client\<close>

lemma get_ai_response_first:
  "prompt \<noteq> [] \<Longrightarrow>
   get_ai_response gc (Some prompt) w =
     (case gc (length (sent w)) prompt of
        Returned text \<Rightarrow>
          (text, w\<lparr>out := out w @ [asking_message], sent := sent w @ [prompt]\<rparr>)
      | Raised (ResourceExhausted m) \<Rightarrow>
          retry gc prompt (w\<lparr>out := out w @ [asking_message], sent := sent w @ [prompt]\<rparr>)
      | Raised (OtherException m) \<Rightarrow>
          (cross_mark @ '' An unexpected error occurred: '' @ m,
           w\<lparr>out := out w @ [asking_message], sent := sent w @ [prompt]\<rparr>))"
  by (simp add: generate_def print_def split: outcome.splits failure.splits)

lemma retry_unfold:
  "retry gc prompt w =
     ((case gc (length (sent w)) prompt of
         Returned text \<Rightarrow> text
       | Raised e \<Rightarrow> cross_mark @ '' Error on retry: '' @ message e),
      w\<lparr>out := out w @
                [yellow_circle @ '' Rate limit hit. Waiting for 30 seconds before retrying...'',
                 '' yeniden deneme...''],
         slept := slept w + 30,
         sent := sent w @ [prompt]\<rparr>)"
  by (simp add: retry_def generate_def print_def sleep_def split: outcome.splits)

text \<open>
  C7. An absent or empty prompt: the client returns the fixed text and leaves the console
  and the service untouched, so no remote call is made.
\<close>

theorem get_ai_response_no_prompt:
  "get_ai_response gc None w = (''Prompt could not be created.'', w) \<and>
   get_ai_response gc (Some []) w = (''Prompt could not be created.'', w) \<and>
   sent (snd (get_ai_response gc None w)) = sent w \<and>
   sent (snd (get_ai_response gc (Some []) w)) = sent w"
  by simp

text \<open>
  C3. For a non-empty prompt the client makes one or two remote calls. A rate limit on the
  first call and a success on the second give the success text after two calls; a rate
  limit on the first call and any failure on the second give the retry error text after
  two calls; any other failure on the first call gives the error text after one call. There
  are never more than two calls, and there are two exactly when the first call hit the
  rate limit.
\<close>

theorem get_ai_response_retry_policy:
  assumes "prompt \<noteq> []"
  shows "(gc (length (sent w)) prompt = Raised (ResourceExhausted m) \<longrightarrow>
            gc (Suc (length (sent w))) prompt = Returned text \<longrightarrow>
            fst (get_ai_response gc (Some prompt) w) = text \<and>
            sent (snd (get_ai_response gc (Some prompt) w)) = sent w @ [prompt, prompt]) \<and>
         (gc (length (sent w)) prompt = Raised (ResourceExhausted m) \<longrightarrow>
            gc (Suc (length (sent w))) prompt = Raised f \<longrightarrow>
            fst (get_ai_response gc (Some prompt) w) =
              cross_mark @ '' Error on retry: '' @ message f \<and>
            sent (snd (get_ai_response gc (Some prompt) w)) = sent w @ [prompt, prompt]) \<and>
         (gc (length (sent w)) prompt = Raised (OtherException m) \<longrightarrow>
            fst (get_ai_response gc (Some prompt) w) =
              cross_mark @ '' An unexpected error occurred: '' @ m \<and>
            sent (snd (get_ai_response gc (Some prompt) w)) = sent w @ [prompt]) \<and>
         length (sent (snd (get_ai_response gc (Some prompt) w))) \<le> length (sent w) + 2 \<and>
         ((length (sent (snd (get_ai_response gc (Some prompt) w))) = length (sent w) + 2) =
           (\<exists>m. gc (length (sent w)) prompt = Raised (ResourceExhausted m)))"
  using assms
  by (auto simp: get_ai_response_first retry_unfold simp del: get_ai_response.simps
           split: outcome.splits failure.splits)

theorem get_ai_response_retry_policy_witness:
  "''plan?'' \<noteq> [] \<and>
   get_ai_response (scripted [Raised (ResourceExhausted ''429''), Returned ''the plan''])
     (Some ''plan?'') start =
     (''the plan'',
      \<lparr>out = [asking_message,
              yellow_circle @ '' Rate limit hit. Waiting for 30 seconds before retrying...'',
              '' yeniden deneme...''],
       sent = [''plan?'', ''plan?''], slept = 30\<rparr>) \<and>
   fst (get_ai_response
          (scripted [Raised (ResourceExhausted ''429''), Raised (ResourceExhausted ''429 again'')])
          (Some ''plan?'') start) = cross_mark @ '' Error on retry: 429 again'' \<and>
   length (sent (snd (get_ai_response
          (scripted [Raised (ResourceExhausted ''429''), Raised (ResourceExhausted ''429 again'')])
          (Some ''plan?'') start))) = 2 \<and>
   fst (get_ai_response (scripted [Raised (OtherException ''timeout''), Returned ''late''])
          (Some ''plan?'') start) = cross_mark @ '' An unexpected error occurred: timeout'' \<and>
   length (sent (snd (get_ai_response
          (scripted [Raised (OtherException ''timeout''), Returned ''late''])
          (Some ''plan?'') start))) = 1"
  using
    get_ai_response_retry_policy [of "''plan?''"
      "scripted [Raised (ResourceExhausted ''429''), Returned ''the plan'']" start
      "''429''" "''the plan''" "ResourceExhausted ''429 again''"]
    get_ai_response_retry_policy [of "''plan?''"
      "scripted [Raised (ResourceExhausted ''429''), Raised (ResourceExhausted ''429 again'')]" start
      "''429''" "''the plan''" "ResourceExhausted ''429 again''"]
    get_ai_response_retry_policy [of "''plan?''"
      "scripted [Raised (OtherException ''timeout''), Returned ''late'']" start
      "''timeout''" "''the plan''" "ResourceExhausted ''429 again''"]
  by (simp add: scripted_def start_def generate_def print_def sleep_def retry_def)

section \<open>Properties of the orchestrator\<close>

lemma run_snyk_scan_value:
  "subprocess_run e p = CompletedProcess rc stdout stderr \<Longrightarrow> stdout \<noteq> [] \<Longrightarrow>
   json_loads e stdout = Value d \<Longrightarrow>
   run_snyk_scan e p w = (d, w\<lparr>out := out w @ [scan_message]\<rparr>)"
  by (simp add: run_snyk_scan_def print_def)

lemma main_after_scan:
  assumes "GOOGLE_API_KEY e = Some key" "key \<noteq> []"
      and "typed_path e \<noteq> []" "isdir e (typed_path e)"
      and "subprocess_run e (typed_path e) = CompletedProcess rc stdout stderr" "stdout \<noteq> []"
      and "json_loads e stdout = Value d"
  shows "main e w =
     (if no_results d then Inr (w\<lparr>out := out w @ [path_question, scan_message]\<rparr>)
      else case upgrade_section e (fst (process_snyk_results d))
                  (w\<lparr>out := out w @ [path_question, scan_message]\<rparr>) of
             Inl err \<Rightarrow> Inl err
           | Inr w3 \<Rightarrow> Inr (replacement_section e (snd (process_snyk_results d)) w3))"
  using assms
  by (simp add: main_def run_snyk_scan_value print_def case_prod_beta)

lemma fixable_has_upgrade: "list_all has_upgrade (fst (process_snyk_results d))"
proof (cases d)
  case None
  then show ?thesis by simp
next
  case (Some a)
  then show ?thesis
    by (simp add: process_snyk_results_filter list_all_iff del: process_snyk_results.simps(2))
qed

lemma upgrade_section_run:
  assumes "fixable \<noteq> []" "create_upgrade_prompt fixable = Inr up"
  shows "upgrade_section e fixable w =
     Inr ((snd (get_ai_response (generate_content e) (Some up) w))
            \<lparr>out := out (snd (get_ai_response (generate_content e) (Some up) w)) @
                    [''\<newline>'' @ banner, upgrade_title, banner @ ''\<newline>'',
                     fst (get_ai_response (generate_content e) (Some up) w)]\<rparr>)"
  using assms
  by (simp add: upgrade_section_def print_def case_prod_beta del: get_ai_response.simps)

lemma replacement_section_run:
  assumes "unfixable \<noteq> []"
  shows "replacement_section e unfixable w =
     (snd (get_ai_response (generate_content e) (Some (create_replacement_prompt unfixable)) w))
       \<lparr>out := out (snd (get_ai_response (generate_content e)
                          (Some (create_replacement_prompt unfixable)) w)) @
               [''\<newline>'' @ banner, replacement_title, banner @ ''\<newline>'',
                fst (get_ai_response (generate_content e)
                       (Some (create_replacement_prompt unfixable)) w)]\<rparr>"
  using assms
  by (simp add: replacement_section_def print_def case_prod_beta Let_def
           del: get_ai_response.simps)

text \<open>
  C8 (as amended). The credential and the path are in order and the scanner's output parses
  to a result \<open>d\<close> without any vulnerability. Classification gives two empty sequences. If
  \<open>d\<close> is not empty (a project object with some key, or a list with some subproject),
  \<^verbatim>\<open>main\<close> prints the two notices after the question and the scan message and makes no
  remote call. If \<open>d\<close> is empty (\<^verbatim>\<open>{}\<close> or \<^verbatim>\<open>[]\<close>), \<^verbatim>\<open>main\<close> returns right after the
  scan: it makes no remote call and prints neither notice.
\<close>

theorem main_no_vulnerabilities:
  assumes "GOOGLE_API_KEY e = Some key" "key \<noteq> []"
      and "typed_path e \<noteq> []" "isdir e (typed_path e)"
      and "subprocess_run e (typed_path e) = CompletedProcess rc stdout stderr" "stdout \<noteq> []"
      and "json_loads e stdout = Value (Some d)"
      and "vulnerabilities_list d = []"
  shows "process_snyk_results (Some d) = ([], []) \<and>
         (truthy d \<longrightarrow>
            main e w = Inr (w\<lparr>out := out w @ [path_question, scan_message,
                                               no_fixable_notice, all_fixable_notice]\<rparr>)) \<and>
         (\<not> truthy d \<longrightarrow>
            main e w = Inr (w\<lparr>out := out w @ [path_question, scan_message]\<rparr>))"
proof -
  have p: "process_snyk_results (Some d) = ([], [])"
    using assms(8) by (simp add: process_snyk_results_filter del: process_snyk_results.simps(2))
  show ?thesis
    unfolding main_after_scan [OF assms(1-7)] p
    by (simp add: upgrade_section_def replacement_section_def print_def)
qed

theorem main_no_vulnerabilities_witness:
  "main (sample_env (Some (Project \<lparr>vulnerabilities = Some [], other_keys = [''ok'']\<rparr>))
          (scripted [])) start =
     Inr \<lparr>out = [path_question, scan_message, no_fixable_notice, all_fixable_notice],
          sent = [], slept = 0\<rparr> \<and>
   main (sample_env (Some (Project \<lparr>vulnerabilities = None, other_keys = []\<rparr>))
          (scripted [])) start =
     Inr \<lparr>out = [path_question, scan_message], sent = [], slept = 0\<rparr>"
  using
    main_no_vulnerabilities [of
      "sample_env (Some (Project \<lparr>vulnerabilities = Some [], other_keys = [''ok'']\<rparr>)) (scripted [])"
      "''secret''" 1 "''json''" "[]" "Project \<lparr>vulnerabilities = Some [], other_keys = [''ok'']\<rparr>"
      start]
    main_no_vulnerabilities [of
      "sample_env (Some (Project \<lparr>vulnerabilities = None, other_keys = []\<rparr>)) (scripted [])"
      "''secret''" 1 "''json''" "[]" "Project \<lparr>vulnerabilities = None, other_keys = []\<rparr>"
      start]
  by (simp add: sample_env_def start_def get_vulnerabilities_def)

text \<open>
  C8 as stated fails: the empty monorepo output \<^verbatim>\<open>[]\<close> holds no vulnerability, and
  \<^verbatim>\<open>main\<close> stops at \<^verbatim>\<open>if not snyk_results: return\<close>; the console then holds the question
  and the scan message only.
\<close>

theorem main_empty_scan_counterexample:
  "vulnerabilities_list (Monorepo []) = [] \<and>
   process_snyk_results (Some (Monorepo [])) = ([], []) \<and>
   main (sample_env (Some (Monorepo [])) (scripted [])) start =
     Inr \<lparr>out = [path_question, scan_message], sent = [], slept = 0\<rparr> \<and>
   no_fixable_notice \<notin> set [path_question, scan_message] \<and>
   all_fixable_notice \<notin> set [path_question, scan_message]"
  by (simp add: main_def sample_env_def start_def run_snyk_scan_def print_def
      no_fixable_notice_def all_fixable_notice_def path_question_def scan_message_def
      check_mark_def microscope_def)

lemma get_ai_response_shape:
  assumes "p \<noteq> []"
  shows "\<exists>k A. (k = 1 \<or> k = 2) \<and>
     snd (get_ai_response gc (Some p) w) =
       w\<lparr>out := out w @ A, sent := sent w @ replicate k p, slept := slept w + 30 * (k - 1)\<rparr> \<and>
     (\<forall>t. gc (length (sent w)) p = Returned t \<longrightarrow>
          fst (get_ai_response gc (Some p) w) = t) \<and>
     (\<forall>m. gc (length (sent w)) p = Raised (OtherException m) \<longrightarrow>
          fst (get_ai_response gc (Some p) w) =
            cross_mark @ '' An unexpected error occurred: '' @ m) \<and>
     (\<forall>m t. gc (length (sent w)) p = Raised (ResourceExhausted m) \<longrightarrow>
          gc (Suc (length (sent w))) p = Returned t \<longrightarrow>
          fst (get_ai_response gc (Some p) w) = t) \<and>
     (\<forall>m f. gc (length (sent w)) p = Raised (ResourceExhausted m) \<longrightarrow>
          gc (Suc (length (sent w))) p = Raised f \<longrightarrow>
          fst (get_ai_response gc (Some p) w) = cross_mark @ '' Error on retry: '' @ message f)"
proof (cases "gc (length (sent w)) p")
  case (Returned t)
  with assms have eq: "get_ai_response gc (Some p) w =
      (t, w\<lparr>out := out w @ [asking_message], sent := sent w @ [p]\<rparr>)"
    by (simp add: get_ai_response_first del: get_ai_response.simps)
  show ?thesis
    apply (rule exI [of _ 1])
    apply (rule exI [of _ "[asking_message]"])
    using Returned by (simp add: eq del: get_ai_response.simps)
next
  case (Raised f)
  show ?thesis
  proof (cases f)
    case (OtherException m)
    with Raised assms have eq: "get_ai_response gc (Some p) w =
        (cross_mark @ '' An unexpected error occurred: '' @ m,
         w\<lparr>out := out w @ [asking_message], sent := sent w @ [p]\<rparr>)"
      by (simp add: get_ai_response_first del: get_ai_response.simps)
    show ?thesis
      apply (rule exI [of _ 1])
      apply (rule exI [of _ "[asking_message]"])
      using Raised OtherException by (simp add: eq del: get_ai_response.simps)
  next
    case (ResourceExhausted m)
    with Raised assms have eq: "get_ai_response gc (Some p) w =
        ((case gc (Suc (length (sent w))) p of
           Returned text \<Rightarrow> text
         | Raised e \<Rightarrow> cross_mark @ '' Error on retry: '' @ message e),
         w\<lparr>out := out w @ [asking_message,
              yellow_circle @ '' Rate limit hit. Waiting for 30 seconds before retrying...'',
              '' yeniden deneme...''],
            sent := sent w @ [p, p], slept := slept w + 30\<rparr>)"
      by (simp add: get_ai_response_first retry_unfold del: get_ai_response.simps)
    show ?thesis
      apply (rule exI [of _ 2])
      apply (rule exI [of _ "[asking_message,
              yellow_circle @ '' Rate limit hit. Waiting for 30 seconds before retrying...'',
              '' yeniden deneme...'']"])
      using Raised ResourceExhausted
      by (simp add: eq numeral_2_eq_2 del: get_ai_response.simps)
  qed
qed

text \<open>
  C9. The credential and the path are in order and the scan result has both fixable and
  unfixable records. Whatever the remote service does, no exception leaves \<^verbatim>\<open>main\<close>; the
  upgrade prompt is sent once or twice and then the replacement prompt is sent once or
  twice; the console shows, after each banner, the text that the client returned for that
  query. When the first call of a query fails with something other than the rate limit, or
  the call after a rate limit fails, that text is the error description, for the upgrade
  query as for the replacement query.
\<close>

theorem main_ai_failures_inline:
  assumes "GOOGLE_API_KEY e = Some key" "key \<noteq> []"
      and "typed_path e \<noteq> []" "isdir e (typed_path e)"
      and "subprocess_run e (typed_path e) = CompletedProcess rc stdout stderr" "stdout \<noteq> []"
      and "json_loads e stdout = Value (Some d)"
      and "process_snyk_results (Some d) = (fixable, unfixable)"
      and "fixable \<noteq> []" "unfixable \<noteq> []"
  shows "\<exists>up k1 k2 A B plan suggestions w'.
      create_upgrade_prompt fixable = Inr up \<and> main e w = Inr w' \<and>
      (k1 = 1 \<or> k1 = 2) \<and> (k2 = 1 \<or> k2 = 2) \<and>
      sent w' = sent w @ replicate k1 up @ replicate k2 (create_replacement_prompt unfixable) \<and>
      out w' = out w @ [path_question, scan_message] @ A @
        [''\<newline>'' @ banner, upgrade_title, banner @ ''\<newline>'', plan] @ B @
        [''\<newline>'' @ banner, replacement_title, banner @ ''\<newline>'', suggestions] \<and>
      (\<forall>m. generate_content e (length (sent w)) up = Raised (OtherException m) \<longrightarrow>
           plan = cross_mark @ '' An unexpected error occurred: '' @ m) \<and>
      (\<forall>m f. generate_content e (length (sent w)) up = Raised (ResourceExhausted m) \<longrightarrow>
           generate_content e (Suc (length (sent w))) up = Raised f \<longrightarrow>
           plan = cross_mark @ '' Error on retry: '' @ message f) \<and>
      (\<forall>m. generate_content e (length (sent w) + k1) (create_replacement_prompt unfixable) =
             Raised (OtherException m) \<longrightarrow>
           suggestions = cross_mark @ '' An unexpected error occurred: '' @ m) \<and>
      (\<forall>m f. generate_content e (length (sent w) + k1) (create_replacement_prompt unfixable) =
             Raised (ResourceExhausted m) \<longrightarrow>
           generate_content e (Suc (length (sent w) + k1)) (create_replacement_prompt unfixable) =
             Raised f \<longrightarrow>
           suggestions = cross_mark @ '' Error on retry: '' @ message f)"
proof -
  let ?gc = "generate_content e"
  let ?rp = "create_replacement_prompt unfixable"
  let ?w0 = "w\<lparr>out := out w @ [path_question, scan_message]\<rparr>"
  have fixable_eq: "fixable = fst (process_snyk_results (Some d))"
    and unfixable_eq: "unfixable = snd (process_snyk_results (Some d))"
    using assms(8) by simp_all
  have "list_all has_upgrade fixable"
    unfolding fixable_eq by (rule fixable_has_upgrade)
  then obtain up where up: "create_upgrade_prompt fixable = Inr up" and up_ne: "up \<noteq> []"
    using create_upgrade_prompt_fixable by blast
  have rp_ne: "?rp \<noteq> []" by (rule create_replacement_prompt_nonempty)
  have results: "\<not> no_results (Some d)"
    using assms(8,9) by (auto split: if_splits)
  define r1 where "r1 = get_ai_response ?gc (Some up) ?w0"
  define w1 where "w1 = (snd r1)\<lparr>out := out (snd r1) @
      [''\<newline>'' @ banner, upgrade_title, banner @ ''\<newline>'', fst r1]\<rparr>"
  define r2 where "r2 = get_ai_response ?gc (Some ?rp) w1"
  define w2 where "w2 = (snd r2)\<lparr>out := out (snd r2) @
      [''\<newline>'' @ banner, replacement_title, banner @ ''\<newline>'', fst r2]\<rparr>"
  have "main e w =
      (case upgrade_section e fixable ?w0 of
         Inl err \<Rightarrow> Inl err
       | Inr w3 \<Rightarrow> Inr (replacement_section e unfixable w3))"
    unfolding main_after_scan [OF assms(1-7)]
    using results by (simp only: assms(8) fst_conv snd_conv if_False)
  also have "upgrade_section e fixable ?w0 = Inr w1"
    unfolding w1_def r1_def by (rule upgrade_section_run [OF assms(9) up])
  finally have main_eq: "main e w = Inr w2"
    by (simp add: replacement_section_run [OF assms(10)] w2_def r2_def
             del: get_ai_response.simps)
  obtain k1 A where k1: "k1 = 1 \<or> k1 = 2"
    and s1: "snd r1 = ?w0\<lparr>out := out ?w0 @ A, sent := sent ?w0 @ replicate k1 up,
                            slept := slept ?w0 + 30 * (k1 - 1)\<rparr>"
    and o1: "\<forall>m. ?gc (length (sent ?w0)) up = Raised (OtherException m) \<longrightarrow>
          fst r1 = cross_mark @ '' An unexpected error occurred: '' @ m"
    and e1: "\<forall>m f. ?gc (length (sent ?w0)) up = Raised (ResourceExhausted m) \<longrightarrow>
          ?gc (Suc (length (sent ?w0))) up = Raised f \<longrightarrow>
          fst r1 = cross_mark @ '' Error on retry: '' @ message f"
    using get_ai_response_shape [OF up_ne, of ?gc ?w0] unfolding r1_def by blast
  obtain k2 B where k2: "k2 = 1 \<or> k2 = 2"
    and s2: "snd r2 = w1\<lparr>out := out w1 @ B, sent := sent w1 @ replicate k2 ?rp,
                           slept := slept w1 + 30 * (k2 - 1)\<rparr>"
    and o2: "\<forall>m. ?gc (length (sent w1)) ?rp = Raised (OtherException m) \<longrightarrow>
          fst r2 = cross_mark @ '' An unexpected error occurred: '' @ m"
    and e2: "\<forall>m f. ?gc (length (sent w1)) ?rp = Raised (ResourceExhausted m) \<longrightarrow>
          ?gc (Suc (length (sent w1))) ?rp = Raised f \<longrightarrow>
          fst r2 = cross_mark @ '' Error on retry: '' @ message f"
    using get_ai_response_shape [OF rp_ne, of ?gc w1] unfolding r2_def by blast
  have sent1: "sent w1 = sent w @ replicate k1 up"
    by (simp add: w1_def s1)
  have len1: "length (sent w1) = length (sent w) + k1"
    by (simp add: sent1)
  have sent2: "sent w2 = sent w @ replicate k1 up @ replicate k2 ?rp"
    by (simp add: w2_def s2 sent1)
  have out1: "out w1 = out w @ [path_question, scan_message] @ A @
      [''\<newline>'' @ banner, upgrade_title, banner @ ''\<newline>'', fst r1]"
    by (simp add: w1_def s1)
  have out2: "out w2 = out w @ [path_question, scan_message] @ A @
      [''\<newline>'' @ banner, upgrade_title, banner @ ''\<newline>'', fst r1] @ B @
      [''\<newline>'' @ banner, replacement_title, banner @ ''\<newline>'', fst r2]"
    by (simp add: w2_def s2 out1)
  show ?thesis
    apply (rule exI [of _ up])
    apply (rule exI [of _ k1])
    apply (rule exI [of _ k2])
    apply (rule exI [of _ A])
    apply (rule exI [of _ B])
    apply (rule exI [of _ "fst r1"])
    apply (rule exI [of _ "fst r2"])
    apply (rule exI [of _ w2])
    using up main_eq k1 k2 sent2 out2 o1 e1 o2 e2
    by (simp add: len1)
qed

theorem main_ai_failures_inline_witness:
  "\<exists>up k1 k2 A B plan suggestions w'.
      create_upgrade_prompt [lodash] = Inr up \<and> main failing_env start = Inr w' \<and>
      (k1 = 1 \<or> k1 = 2) \<and> (k2 = 1 \<or> k2 = 2) \<and>
      sent w' = sent start @ replicate k1 up @ replicate k2 (create_replacement_prompt [old_lib]) \<and>
      out w' = out start @ [path_question, scan_message] @ A @
        [''\<newline>'' @ banner, upgrade_title, banner @ ''\<newline>'', plan] @ B @
        [''\<newline>'' @ banner, replacement_title, banner @ ''\<newline>'', suggestions] \<and>
      (\<forall>m. generate_content failing_env (length (sent start)) up = Raised (OtherException m) \<longrightarrow>
           plan = cross_mark @ '' An unexpected error occurred: '' @ m) \<and>
      (\<forall>m f. generate_content failing_env (length (sent start)) up =
             Raised (ResourceExhausted m) \<longrightarrow>
           generate_content failing_env (Suc (length (sent start))) up = Raised f \<longrightarrow>
           plan = cross_mark @ '' Error on retry: '' @ message f) \<and>
      (\<forall>m. generate_content failing_env (length (sent start) + k1)
             (create_replacement_prompt [old_lib]) = Raised (OtherException m) \<longrightarrow>
           suggestions = cross_mark @ '' An unexpected error occurred: '' @ m) \<and>
      (\<forall>m f. generate_content failing_env (length (sent start) + k1)
             (create_replacement_prompt [old_lib]) = Raised (ResourceExhausted m) \<longrightarrow>
           generate_content failing_env (Suc (length (sent start) + k1))
             (create_replacement_prompt [old_lib]) = Raised f \<longrightarrow>
           suggestions = cross_mark @ '' Error on retry: '' @ message f)"
proof -
  have key: "GOOGLE_API_KEY failing_env = Some ''secret''" "''secret'' \<noteq> []"
    by (simp_all add: failing_env_def sample_env_def)
  have path: "typed_path failing_env \<noteq> []" "isdir failing_env (typed_path failing_env)"
    by (simp_all add: failing_env_def sample_env_def)
  have scan: "subprocess_run failing_env (typed_path failing_env) = CompletedProcess 1 ''json'' []"
      "''json'' \<noteq> []" "json_loads failing_env ''json'' = Value (Some mixed_scan)"
    by (simp_all add: failing_env_def sample_env_def)
  have cls: "process_snyk_results (Some mixed_scan) = ([lodash], [old_lib])"
    by (simp add: mixed_scan_def get_vulnerabilities_def has_upgrade_def lodash_def old_lib_def)
  have ne: "[lodash] \<noteq> []" "[old_lib] \<noteq> []"
    by simp_all
  show ?thesis
    by (rule main_ai_failures_inline [OF key path scan cls ne])
qed

text \<open>
  The same run, step by step: the first remote call fails with a timeout, the error text is
  printed under the upgrade banner, and the replacement query is then made and answered.
\<close>

lemma main_failing_env_run:
  "main failing_env start =
     Inr \<lparr>out = [path_question, scan_message, asking_message,
                 ''\<newline>'' @ banner, upgrade_title, banner @ ''\<newline>'',
                 cross_mark @ '' An unexpected error occurred: timeout'',
                 asking_message,
                 ''\<newline>'' @ banner, replacement_title, banner @ ''\<newline>'',
                 ''alternatives''],
          sent = [upgrade_template @
                  ''- Package: lodash\<newline>  Current Version: 4.0.0\<newline>  Suggested Upgrade: lodash@4.17.21\<newline>  Severity: high'' @
                  ''\<newline>    '',
                  create_replacement_prompt [old_lib]],
          slept = 0\<rparr>"
proof -
  have key: "GOOGLE_API_KEY failing_env = Some ''secret''" "''secret'' \<noteq> []"
    by (simp_all add: failing_env_def sample_env_def)
  have path: "typed_path failing_env \<noteq> []" "isdir failing_env (typed_path failing_env)"
    by (simp_all add: failing_env_def sample_env_def)
  have scan: "subprocess_run failing_env (typed_path failing_env) = CompletedProcess 1 ''json'' []"
      "''json'' \<noteq> []" "json_loads failing_env ''json'' = Value (Some mixed_scan)"
    by (simp_all add: failing_env_def sample_env_def)
  have cls: "process_snyk_results (Some mixed_scan) = ([lodash], [old_lib])"
    by (simp add: mixed_scan_def get_vulnerabilities_def has_upgrade_def lodash_def old_lib_def)
  have up: "create_upgrade_prompt [lodash] = Inr (upgrade_template @
                  ''- Package: lodash\<newline>  Current Version: 4.0.0\<newline>  Suggested Upgrade: lodash@4.17.21\<newline>  Severity: high'' @
                  ''\<newline>    '')"
    by (simp add: create_upgrade_prompt_def upgrade_detail_def suggested_upgrade_def
          subscript_def lodash_def)
  have gc: "generate_content failing_env =
      scripted [Raised (OtherException ''timeout''), Returned ''alternatives'']"
    by (simp add: failing_env_def sample_env_def)
  have t: "mixed_scan = Project \<lparr>vulnerabilities = Some [lodash, old_lib], other_keys = [''ok'']\<rparr>"
    by (rule mixed_scan_def)
  show ?thesis
    unfolding main_after_scan [OF key path scan] cls
    apply (simp add: t)
    apply (simp add: upgrade_section_run [OF _ up] replacement_section_run
        get_ai_response_first create_replacement_prompt_nonempty gc
        del: get_ai_response.simps)
    apply (simp add: scripted_def start_def upgrade_template_def)
    done
qed

end
